theory Spec2Isabelle
  imports Main
begin

section \<open>The URL security analyser of server.py\<close>

text \<open>
  The endpoint \<open>analyze_url\<close> (server.py, lines 187-283) normalises the URL it is given,
  parses it, sends one HEAD request, and scores the six security headers of the response.
  Everything it reads from outside (whether the parser refuses the URL, the outcome of the
  HEAD request, the clock behind the \<open>timestamp\<close> default) is a field of an
  \<open>environment\<close>; the rest is the code of the function, statement by statement.
  The request body has the one field \<open>url\<close>, so the input is that string. The local
  variables \<open>url\<close>, \<open>security_headers\<close>, \<open>security_score\<close>, \<open>privacy_score\<close> and
  \<open>recommendations\<close> of the Python are fields of the response model as well; below they
  are \<open>u\<close>, \<open>headers_map\<close>, \<open>sec\<close>, \<open>priv\<close> and \<open>recs\<close>.
\<close>

subsection \<open>Data\<close>

text \<open>
  \<open>urlparse\<close> raises \<open>ValueError\<close> on some URLs: unbalanced square brackets in the
  host, a bracketed host that is no IP literal, host characters that normalise to a
  separator. The call (line 193) stands before the \<open>try\<close> block, so the exception leaves
  \<open>analyze_url\<close> and no result is returned.
\<close>

datatype error = ValueError

text \<open>
  What \<open>session.head\<close> does inside the \<open>try\<close> block: any exception is caught by
  \<open>except Exception\<close> (\<open>FetchFailed\<close>), or there is a response, of which the code only
  uses \<open>headers.get\<close>: a header name to its value, or \<open>None\<close>.
\<close>

datatype fetch_outcome = FetchFailed | Response "string \<Rightarrow> string option"

text \<open>
  \<open>urlsplit_rejects u\<close>: \<open>urlparse(u)\<close> raises \<open>ValueError\<close>. Which URLs those are
  depends on the version of the library, so it is left open. \<open>head_request u\<close>: what the
  HEAD request to \<open>u\<close> does. \<open>now\<close>: the clock reading that \<open>timestamp\<close> gets.
\<close>

record environment =
  urlsplit_rejects :: "string \<Rightarrow> bool"
  head_request :: "string \<Rightarrow> fetch_outcome"
  now :: nat

text \<open>The one field of \<open>urlparse\<close>'s result that the code reads.\<close>

record ParseResult =
  scheme :: string

text \<open>
  The response model \<open>SecurityAnalysis\<close> (lines 76-84). A Python dict keeps its insertion
  order, so \<open>security_headers\<close> is an association list; \<open>ssl_info\<close> is optional.
\<close>

record SecurityAnalysis =
  url :: string
  https :: bool
  security_headers :: "(string \<times> string) list"
  ssl_info :: "(string \<times> string) list option"
  privacy_score :: int
  security_score :: int
  recommendations :: "string list"
  timestamp :: nat

subsection \<open>Library functions the code calls\<close>

text \<open>\<open>s.startswith(prefixes)\<close> with a tuple: some prefix of the tuple starts \<open>s\<close>.\<close>

definition startswith :: "string \<Rightarrow> string list \<Rightarrow> bool" where
  "startswith s prefixes = list_ex (\<lambda>p. take (length p) s = p) prefixes"

text \<open>\<open>d.get(k)\<close> on a dict: the value, or \<open>None\<close>.\<close>

definition dict_get :: "(string \<times> string) list \<Rightarrow> string \<Rightarrow> string option" where
  "dict_get d k = map_of d k"

text \<open>
  The scheme that \<open>urllib.parse.urlsplit\<close> computes: leading C0 control characters and
  spaces are stripped, tab, carriage return and line feed are removed, and the text in front
  of the first colon is the scheme, in lower case, when it is not empty, starts with an ASCII
  letter and has scheme characters only. Otherwise the scheme is empty.
\<close>

definition scheme_chars :: string where
  "scheme_chars = ''abcdefghijklmnopqrstuvwxyzABCDEFGHIJKLMNOPQRSTUVWXYZ0123456789+-.''"

definition c0_control_or_space :: "char \<Rightarrow> bool" where
  "c0_control_or_space c = (of_char c \<le> (32::nat))"

definition unsafe_url_bytes :: string where
  "unsafe_url_bytes = [CHR 0x09, CHR 0x0D, CHR 0x0A]"

definition ascii_alpha :: "char \<Rightarrow> bool" where
  "ascii_alpha c = (c \<in> set ''abcdefghijklmnopqrstuvwxyzABCDEFGHIJKLMNOPQRSTUVWXYZ'')"

definition lower :: "char \<Rightarrow> char" where
  "lower c = (let n = (of_char c :: nat) in if 65 \<le> n \<and> n \<le> 90 then char_of (n + 32) else c)"

definition url_scheme :: "string \<Rightarrow> string" where
  "url_scheme url0 =
     (let url1 = dropWhile c0_control_or_space url0;
          url2 = filter (\<lambda>c. c \<notin> set unsafe_url_bytes) url1;
          candidate = takeWhile (\<lambda>c. c \<noteq> CHR '':'') url2
      in if CHR '':'' \<in> set url2 \<and> candidate \<noteq> [] \<and> ascii_alpha (hd url2)
            \<and> list_all (\<lambda>c. c \<in> set scheme_chars) candidate
         then map lower candidate else [])"

definition urlparse :: "environment \<Rightarrow> string \<Rightarrow> error + ParseResult" where
  "urlparse env u =
     (if urlsplit_rejects env u then Inl ValueError
      else Inr \<lparr>scheme = url_scheme u\<rparr>)"

subsection \<open>The analyser\<close>

text \<open>Lines 189-191: a URL with no scheme gets \<open>https://\<close>.\<close>

definition normalize_url :: "string \<Rightarrow> string" where
  "normalize_url input_url =
     (if \<not> startswith input_url [''http://'', ''https://'']
      then ''https://'' @ input_url else input_url)"

text \<open>Lines 206-213: the six headers looked up in the response, in this order.\<close>

definition security_header_checks ::
    "(string \<Rightarrow> string option) \<Rightarrow> (string \<times> string option) list" where
  "security_header_checks headers =
     [(''Strict-Transport-Security'', headers ''Strict-Transport-Security''),
      (''Content-Security-Policy'', headers ''Content-Security-Policy''),
      (''X-Frame-Options'', headers ''X-Frame-Options''),
      (''X-Content-Type-Options'', headers ''X-Content-Type-Options''),
      (''Referrer-Policy'', headers ''Referrer-Policy''),
      (''Permissions-Policy'', headers ''Permissions-Policy'')]"

text \<open>
  Line 215, \<open>v if v else 'Missing'\<close>: \<open>None\<close> and the empty string are false in Python.
\<close>

definition value_or_missing :: "string option \<Rightarrow> string" where
  "value_or_missing v =
     (case v of None \<Rightarrow> ''Missing'' | Some s \<Rightarrow> if s \<noteq> [] then s else ''Missing'')"

text \<open>Lines 196-218: the \<open>try\<close> block and its \<open>except\<close> branch.\<close>

definition fetch_security_headers :: "fetch_outcome \<Rightarrow> (string \<times> string) list" where
  "fetch_security_headers outcome =
     (case outcome of
        Response headers \<Rightarrow>
          map (\<lambda>(k, v). (k, value_or_missing v)) (security_header_checks headers)
      | FetchFailed \<Rightarrow> [(''error'', ''Could not fetch headers'')])"

text \<open>
  Lines 220-260, "Calculate scores": the two counters and the recommendation list are
  threaded through the seven checks in the order of the code.
\<close>

definition calculate_scores ::
    "bool \<Rightarrow> (string \<times> string) list \<Rightarrow> int \<times> int \<times> string list" where
  "calculate_scores is_https headers_map =
     (let (sec, priv, recs) = (0, 0, []);
          (sec, priv, recs) =
            (if is_https then (sec + 30, priv + 20, recs)
             else (sec, priv, recs @ [''Site does not use HTTPS - traffic is not encrypted'']));
          (sec, priv, recs) =
            (if dict_get headers_map ''Strict-Transport-Security'' \<noteq> Some ''Missing''
             then (sec + 15, priv, recs)
             else (sec, priv,
                   recs @ [''Missing HSTS header - vulnerable to protocol downgrade attacks'']));
          (sec, priv, recs) =
            (if dict_get headers_map ''Content-Security-Policy'' \<noteq> Some ''Missing''
             then (sec + 15, priv + 15, recs)
             else (sec, priv, recs @ [''Missing CSP header - vulnerable to XSS attacks'']));
          (sec, priv, recs) =
            (if dict_get headers_map ''X-Frame-Options'' \<noteq> Some ''Missing''
             then (sec + 10, priv, recs)
             else (sec, priv, recs @ [''Missing X-Frame-Options - vulnerable to clickjacking'']));
          (sec, priv, recs) =
            (if dict_get headers_map ''X-Content-Type-Options'' \<noteq> Some ''Missing''
             then (sec + 10, priv, recs)
             else (sec, priv, recs @ [''Missing X-Content-Type-Options header'']));
          (sec, priv, recs) =
            (if dict_get headers_map ''Referrer-Policy'' \<noteq> Some ''Missing''
             then (sec, priv + 15, recs)
             else (sec, priv, recs @ [''Missing Referrer-Policy - may leak information'']));
          (sec, priv, recs) =
            (if dict_get headers_map ''Permissions-Policy'' \<noteq> Some ''Missing''
             then (sec, priv + 20, recs)
             else (sec, priv, recs @ [''Missing Permissions-Policy header'']))
      in (sec, priv, recs))"

text \<open>Lines 266-270, "Add positive feedback": \<open>insert(0, ...)\<close> puts the message first.\<close>

definition add_positive_feedback :: "int \<Rightarrow> string list \<Rightarrow> string list" where
  "add_positive_feedback sec recs =
     (if sec \<ge> 80 then ''Excellent security configuration!'' # recs
      else if sec \<ge> 60 then ''Good security, but room for improvement'' # recs
      else recs)"

text \<open>Lines 188-283.\<close>

definition analyze_url :: "environment \<Rightarrow> string \<Rightarrow> error + SecurityAnalysis" where
  "analyze_url env input_url =
     (let u = normalize_url input_url in
      case urlparse env u of
        Inl e \<Rightarrow> Inl e
      | Inr parsed \<Rightarrow>
          (let is_https = (scheme parsed = ''https'');
               headers_map = fetch_security_headers (head_request env u);
               (sec, priv, recs) = calculate_scores is_https headers_map;
               sec = min sec 100;
               priv = min priv 100;
               recs = add_positive_feedback sec recs;
               recs = (if recs = [] then recs @ [''All security checks passed!''] else recs)
           in Inr \<lparr>url = u, https = is_https, security_headers = headers_map,
                    ssl_info = None, privacy_score = priv, security_score = sec,
                    recommendations = recs, timestamp = now env\<rparr>))"

subsection \<open>Names used in the statements\<close>

text \<open>The keys of the dict built at lines 206-213, in its order.\<close>

definition security_header_names :: "string list" where
  "security_header_names =
     [''Strict-Transport-Security'', ''Content-Security-Policy'', ''X-Frame-Options'',
      ''X-Content-Type-Options'', ''Referrer-Policy'', ''Permissions-Policy'']"

text \<open>
  Two families of environments for the concrete runs below. In \<open>offline\<close> every HEAD
  request raises; in \<open>serving hs\<close> every HEAD request is answered with the headers \<open>hs\<close>.
  Neither rejects a URL, and the clock reads 0.
\<close>

definition offline :: environment where
  "offline =
     \<lparr>urlsplit_rejects = (\<lambda>u. False), head_request = (\<lambda>u. FetchFailed), now = 0\<rparr>"

definition serving :: "(string \<times> string) list \<Rightarrow> environment" where
  "serving hs =
     \<lparr>urlsplit_rejects = (\<lambda>u. False), head_request = (\<lambda>u. Response (map_of hs)),
      now = 0\<rparr>"

section \<open>Facts about the parts\<close>

subsection \<open>Scheme and normalisation\<close>

lemma url_scheme_https: "url_scheme (''https://'' @ s) = ''https''"
  by (simp add: url_scheme_def c0_control_or_space_def unsafe_url_bytes_def ascii_alpha_def
      scheme_chars_def lower_def Let_def)

lemma url_scheme_http: "url_scheme (''http://'' @ s) = ''http''"
  by (simp add: url_scheme_def c0_control_or_space_def unsafe_url_bytes_def ascii_alpha_def
      scheme_chars_def lower_def Let_def)

lemma take_length_eq: "take (length p) s = p \<longleftrightarrow> (\<exists>t. s = p @ t)"
  by (metis append_eq_conv_conj)

lemma startswith_iff:
  "startswith s [''http://'', ''https://''] \<longleftrightarrow>
     (\<exists>t. s = ''http://'' @ t) \<or> (\<exists>t. s = ''https://'' @ t)"
proof -
  have "startswith s [''http://'', ''https://''] \<longleftrightarrow>
          take (length ''http://'') s = ''http://'' \<or> take (length ''https://'') s = ''https://''"
    unfolding startswith_def by (simp del: list.size)
  then show ?thesis
    unfolding take_length_eq .
qed

lemma startswith_https_iff:
  "startswith s [''https://''] \<longleftrightarrow> (\<exists>t. s = ''https://'' @ t)"
  unfolding startswith_def using take_length_eq [of "''https://''" s]
  by (simp del: list.size)

lemma normalize_url_cases:
  "(\<exists>t. normalize_url s = ''http://'' @ t) \<or> (\<exists>t. normalize_url s = ''https://'' @ t)"
  unfolding normalize_url_def startswith_iff by auto

lemma is_https_iff:
  "url_scheme (normalize_url s) = ''https'' \<longleftrightarrow> (\<exists>t. normalize_url s = ''https://'' @ t)"
proof
  assume a: "url_scheme (normalize_url s) = ''https''"
  show "\<exists>t. normalize_url s = ''https://'' @ t"
  proof (rule ccontr)
    assume "\<not> ?thesis"
    with normalize_url_cases [of s] obtain t where "normalize_url s = ''http://'' @ t"
      by blast
    then have "url_scheme (normalize_url s) = ''http''"
      by (simp only: url_scheme_http)
    with a show False by simp
  qed
next
  assume "\<exists>t. normalize_url s = ''https://'' @ t"
  then obtain t where "normalize_url s = ''https://'' @ t" ..
  then show "url_scheme (normalize_url s) = ''https''"
    by (simp only: url_scheme_https)
qed

subsection \<open>The header map\<close>

lemma fetch_failed_headers:
  "fetch_security_headers FetchFailed = [(''error'', ''Could not fetch headers'')]"
  by (simp add: fetch_security_headers_def)

lemma fetch_response_headers:
  "fetch_security_headers (Response headers) =
     map (\<lambda>k. (k, value_or_missing (headers k))) security_header_names"
  by (simp add: fetch_security_headers_def security_header_checks_def security_header_names_def)

lemma dict_get_response:
  "k \<in> set security_header_names \<Longrightarrow>
   dict_get (fetch_security_headers (Response headers)) k = Some (value_or_missing (headers k))"
  unfolding fetch_response_headers dict_get_def
  by (simp add: map_of_map_restrict)

lemma value_or_missing_empty: "value_or_missing (Some []) = value_or_missing None"
  by (simp add: value_or_missing_def)

subsection \<open>The seven checks\<close>

text \<open>The threaded state of \<open>calculate_scores\<close>, read off as two sums and one list.\<close>

lemma calculate_scores_closed:
  "calculate_scores b h =
     ((if b then 30 else 0)
        + (if dict_get h ''Strict-Transport-Security'' \<noteq> Some ''Missing'' then 15 else 0)
        + (if dict_get h ''Content-Security-Policy'' \<noteq> Some ''Missing'' then 15 else 0)
        + (if dict_get h ''X-Frame-Options'' \<noteq> Some ''Missing'' then 10 else 0)
        + (if dict_get h ''X-Content-Type-Options'' \<noteq> Some ''Missing'' then 10 else 0),
      (if b then 20 else 0)
        + (if dict_get h ''Content-Security-Policy'' \<noteq> Some ''Missing'' then 15 else 0)
        + (if dict_get h ''Referrer-Policy'' \<noteq> Some ''Missing'' then 15 else 0)
        + (if dict_get h ''Permissions-Policy'' \<noteq> Some ''Missing'' then 20 else 0),
      (if b then [] else [''Site does not use HTTPS - traffic is not encrypted''])
        @ (if dict_get h ''Strict-Transport-Security'' \<noteq> Some ''Missing'' then []
           else [''Missing HSTS header - vulnerable to protocol downgrade attacks''])
        @ (if dict_get h ''Content-Security-Policy'' \<noteq> Some ''Missing'' then []
           else [''Missing CSP header - vulnerable to XSS attacks''])
        @ (if dict_get h ''X-Frame-Options'' \<noteq> Some ''Missing'' then []
           else [''Missing X-Frame-Options - vulnerable to clickjacking''])
        @ (if dict_get h ''X-Content-Type-Options'' \<noteq> Some ''Missing'' then []
           else [''Missing X-Content-Type-Options header''])
        @ (if dict_get h ''Referrer-Policy'' \<noteq> Some ''Missing'' then []
           else [''Missing Referrer-Policy - may leak information''])
        @ (if dict_get h ''Permissions-Policy'' \<noteq> Some ''Missing'' then []
           else [''Missing Permissions-Policy header'']))"
  by (simp add: calculate_scores_def)

lemma calculate_scores_security_bounds:
  "0 \<le> fst (calculate_scores b h)" "fst (calculate_scores b h) \<le> 80"
  by (simp_all add: calculate_scores_closed)

lemma calculate_scores_privacy_bounds:
  "0 \<le> fst (snd (calculate_scores b h))" "fst (snd (calculate_scores b h)) \<le> 70"
  by (simp_all add: calculate_scores_closed)

lemma calculate_scores_no_feedback:
  "''Excellent security configuration!'' \<notin> set (snd (snd (calculate_scores b h)))"
  "''Good security, but room for improvement'' \<notin> set (snd (snd (calculate_scores b h)))"
  by (simp_all add: calculate_scores_closed)

text \<open>
  The map of the \<open>except\<close> branch has none of the six keys, so \<open>get\<close> returns \<open>None\<close>,
  which differs from \<open>'Missing'\<close>: each of the six header checks takes its first branch.
\<close>

lemma calculate_scores_error_map:
  "calculate_scores b [(''error'', ''Could not fetch headers'')] =
     (if b then (80, 70, [])
      else (50, 50, [''Site does not use HTTPS - traffic is not encrypted'']))"
  by (simp add: calculate_scores_closed dict_get_def)

subsection \<open>The whole function\<close>

lemma analyze_url_unfold:
  "analyze_url env i =
     (if urlsplit_rejects env (normalize_url i) then Inl ValueError
      else Inr \<lparr>url = normalize_url i,
                https = (url_scheme (normalize_url i) = ''https''),
                security_headers = fetch_security_headers (head_request env (normalize_url i)),
                ssl_info = None,
                privacy_score =
                  min (fst (snd (calculate_scores (url_scheme (normalize_url i) = ''https'')
                    (fetch_security_headers (head_request env (normalize_url i)))))) 100,
                security_score =
                  min (fst (calculate_scores (url_scheme (normalize_url i) = ''https'')
                    (fetch_security_headers (head_request env (normalize_url i))))) 100,
                recommendations =
                  (let recs = add_positive_feedback
                         (min (fst (calculate_scores (url_scheme (normalize_url i) = ''https'')
                            (fetch_security_headers (head_request env (normalize_url i))))) 100)
                         (snd (snd (calculate_scores (url_scheme (normalize_url i) = ''https'')
                            (fetch_security_headers (head_request env (normalize_url i))))))
                   in if recs = [] then recs @ [''All security checks passed!''] else recs),
                timestamp = now env\<rparr>)"
  by (simp add: analyze_url_def urlparse_def Let_def split_beta)

lemma analyze_url_returns:
  "\<not> urlsplit_rejects env (normalize_url i) \<Longrightarrow> \<exists>r. analyze_url env i = Inr r"
  by (simp add: analyze_url_unfold)

lemma analyze_url_result:
  assumes "analyze_url env i = Inr r"
  shows "\<not> urlsplit_rejects env (normalize_url i)"
    and "url r = normalize_url i"
    and "https r = (url_scheme (normalize_url i) = ''https'')"
    and "security_headers r = fetch_security_headers (head_request env (normalize_url i))"
    and "ssl_info r = None"
    and "timestamp r = now env"
    and "security_score r = min (fst (calculate_scores (https r) (security_headers r))) 100"
    and "privacy_score r = min (fst (snd (calculate_scores (https r) (security_headers r)))) 100"
    and "recommendations r =
           (let recs = add_positive_feedback (security_score r)
                         (snd (snd (calculate_scores (https r) (security_headers r))))
            in if recs = [] then recs @ [''All security checks passed!''] else recs)"
  using assms by (auto simp add: analyze_url_unfold split: if_splits)

text \<open>The unfolding rules that evaluate a concrete run.\<close>

lemmas eval_defs =
  analyze_url_unfold normalize_url_def startswith_def url_scheme_def c0_control_or_space_def
  unsafe_url_bytes_def ascii_alpha_def scheme_chars_def lower_def Let_def
  fetch_security_headers_def security_header_checks_def value_or_missing_def
  calculate_scores_closed dict_get_def add_positive_feedback_def security_header_names_def
  offline_def serving_def

section \<open>The claims\<close>

subsection \<open>C1: a failed fetch is scored as if every header were present\<close>

text \<open>
  Claim C1 says that after a failed fetch the error map is scored as if each of the six
  headers were absent: all seven failure messages are among the recommendations, no
  positive-feedback message is put in front, and \<open>security_score\<close> is at most 30. The code
  does not do that. The error map has none of the six keys, so \<open>get\<close> returns \<open>None\<close>;
  \<open>None != 'Missing'\<close> is true, and each of the six header checks (lines 231-260) takes
  its first branch and adds its points (\<open>calculate_scores_error_map\<close>). On the run below,
  \<open>http://example.com\<close> with a HEAD request that raises, the claim asks for a
  \<open>security_score\<close> of 0 and the seven failure messages; the code returns 50 and 50 with
  the HTTPS message alone. A successful fetch that finds none of the headers does fire all
  six header messages (see C6).
\<close>

theorem fetch_failure_scored_as_all_present:
  "analyze_url offline ''http://example.com'' =
     Inr \<lparr>url = ''http://example.com'', https = False,
           security_headers = [(''error'', ''Could not fetch headers'')],
           ssl_info = None, privacy_score = 50, security_score = 50,
           recommendations = [''Site does not use HTTPS - traffic is not encrypted''],
           timestamp = 0\<rparr>"
proof -
  have n: "normalize_url ''http://example.com'' = ''http://example.com''"
    by (simp add: normalize_url_def startswith_def)
  have s: "url_scheme ''http://example.com'' \<noteq> ''https''"
    using url_scheme_http [of "''example.com''"] by simp
  show ?thesis
    unfolding analyze_url_unfold n
    by (simp add: s offline_def fetch_failed_headers calculate_scores_error_map
        add_positive_feedback_def)
qed

subsection \<open>C2: HTTPS and all six headers\<close>

text \<open>
  Claim C2 as first stated asks for a \<open>security_score\<close> of 100 when \<open>https\<close> is true and
  all six headers are present. The run on \<open>https://example.com\<close> with all six headers
  returns 80: the five contributions to the score are 30, 15, 15, 10 and 10.
\<close>

theorem https_all_headers_score_counterexample:
  "\<exists>r. analyze_url
         (serving [(''Strict-Transport-Security'', ''max-age=31536000''),
                   (''Content-Security-Policy'', ''default-src https:''),
                   (''X-Frame-Options'', ''DENY''),
                   (''X-Content-Type-Options'', ''nosniff''),
                   (''Referrer-Policy'', ''no-referrer''),
                   (''Permissions-Policy'', ''geolocation=()'')]) ''https://example.com'' = Inr r
       \<and> https r
       \<and> security_headers r =
            [(''Strict-Transport-Security'', ''max-age=31536000''),
             (''Content-Security-Policy'', ''default-src https:''),
             (''X-Frame-Options'', ''DENY''),
             (''X-Content-Type-Options'', ''nosniff''),
             (''Referrer-Policy'', ''no-referrer''),
             (''Permissions-Policy'', ''geolocation=()'')]
       \<and> security_score r = 80 \<and> security_score r \<noteq> 100"
proof -
  obtain r where r:
    "analyze_url
       (serving [(''Strict-Transport-Security'', ''max-age=31536000''),
                 (''Content-Security-Policy'', ''default-src https:''),
                 (''X-Frame-Options'', ''DENY''),
                 (''X-Content-Type-Options'', ''nosniff''),
                 (''Referrer-Policy'', ''no-referrer''),
                 (''Permissions-Policy'', ''geolocation=()'')]) ''https://example.com'' = Inr r"
    using analyze_url_returns
      [of "serving [(''Strict-Transport-Security'', ''max-age=31536000''),
                    (''Content-Security-Policy'', ''default-src https:''),
                    (''X-Frame-Options'', ''DENY''),
                    (''X-Content-Type-Options'', ''nosniff''),
                    (''Referrer-Policy'', ''no-referrer''),
                    (''Permissions-Policy'', ''geolocation=()'')]" "''https://example.com''"]
    by (auto simp add: serving_def)
  have h: "https r"
    using analyze_url_result(3) [OF r] by (simp add: eval_defs)
  have m: "security_headers r =
            [(''Strict-Transport-Security'', ''max-age=31536000''),
             (''Content-Security-Policy'', ''default-src https:''),
             (''X-Frame-Options'', ''DENY''),
             (''X-Content-Type-Options'', ''nosniff''),
             (''Referrer-Policy'', ''no-referrer''),
             (''Permissions-Policy'', ''geolocation=()'')]"
    using analyze_url_result(4) [OF r] by (simp add: eval_defs)
  have s: "security_score r = 80"
    using analyze_url_result(7) [OF r] unfolding m by (simp add: h eval_defs)
  then have n: "security_score r \<noteq> 100"
    by simp
  show ?thesis
    by (intro exI [of _ r] conjI r h m s n)
qed

text \<open>
  Claim C2, as amended. When the fetch succeeds, none of the six headers is mapped to
  \<open>'Missing'\<close> and \<open>https\<close> is true, the result has \<open>security_score\<close> 80
  (30 + 15 + 15 + 10 + 10), \<open>privacy_score\<close> 70 (20 + 15 + 15 + 20) and exactly the one
  recommendation "Excellent security configuration!".
\<close>

theorem https_all_headers_score_80:
  assumes "analyze_url env input_url = Inr r"
    and "head_request env (url r) = Response headers"
    and "https r"
    and "list_all (\<lambda>k. value_or_missing (headers k) \<noteq> ''Missing'') security_header_names"
  shows "security_score r = 80 \<and> privacy_score r = 70
         \<and> recommendations r = [''Excellent security configuration!'']"
proof -
  note res = analyze_url_result [OF assms(1)]
  have sh: "security_headers r = fetch_security_headers (Response headers)"
    using res(2,4) assms(2) by simp
  have "\<And>k. k \<in> set security_header_names \<Longrightarrow>
          dict_get (security_headers r) k \<noteq> Some ''Missing''"
    unfolding sh using assms(4) by (simp add: dict_get_response list_all_iff)
  then have c: "calculate_scores (https r) (security_headers r) = (80, 70, [])"
    using assms(3) by (simp add: calculate_scores_closed security_header_names_def)
  show ?thesis
    using res(7,8,9) unfolding c by (simp add: add_positive_feedback_def)
qed

theorem https_all_headers_score_80_witness:
  "\<exists>r. analyze_url
         (serving [(''Strict-Transport-Security'', ''max-age=63072000''),
                   (''Content-Security-Policy'', ''default-src https:''),
                   (''X-Frame-Options'', ''SAMEORIGIN''),
                   (''X-Content-Type-Options'', ''nosniff''),
                   (''Referrer-Policy'', ''same-origin''),
                   (''Permissions-Policy'', ''camera=()'')]) ''github.com'' = Inr r
       \<and> head_request
            (serving [(''Strict-Transport-Security'', ''max-age=63072000''),
                      (''Content-Security-Policy'', ''default-src https:''),
                      (''X-Frame-Options'', ''SAMEORIGIN''),
                      (''X-Content-Type-Options'', ''nosniff''),
                      (''Referrer-Policy'', ''same-origin''),
                      (''Permissions-Policy'', ''camera=()'')]) (url r)
          = Response (map_of [(''Strict-Transport-Security'', ''max-age=63072000''),
                              (''Content-Security-Policy'', ''default-src https:''),
                              (''X-Frame-Options'', ''SAMEORIGIN''),
                              (''X-Content-Type-Options'', ''nosniff''),
                              (''Referrer-Policy'', ''same-origin''),
                              (''Permissions-Policy'', ''camera=()'')])
       \<and> https r
       \<and> list_all
            (\<lambda>k. value_or_missing
                   (map_of [(''Strict-Transport-Security'', ''max-age=63072000''),
                            (''Content-Security-Policy'', ''default-src https:''),
                            (''X-Frame-Options'', ''SAMEORIGIN''),
                            (''X-Content-Type-Options'', ''nosniff''),
                            (''Referrer-Policy'', ''same-origin''),
                            (''Permissions-Policy'', ''camera=()'')] k) \<noteq> ''Missing'')
            security_header_names
       \<and> security_score r = 80 \<and> privacy_score r = 70
       \<and> recommendations r = [''Excellent security configuration!'']"
proof -
  obtain r where r:
    "analyze_url
       (serving [(''Strict-Transport-Security'', ''max-age=63072000''),
                 (''Content-Security-Policy'', ''default-src https:''),
                 (''X-Frame-Options'', ''SAMEORIGIN''),
                 (''X-Content-Type-Options'', ''nosniff''),
                 (''Referrer-Policy'', ''same-origin''),
                 (''Permissions-Policy'', ''camera=()'')]) ''github.com'' = Inr r"
    using analyze_url_returns
      [of "serving [(''Strict-Transport-Security'', ''max-age=63072000''),
                    (''Content-Security-Policy'', ''default-src https:''),
                    (''X-Frame-Options'', ''SAMEORIGIN''),
                    (''X-Content-Type-Options'', ''nosniff''),
                    (''Referrer-Policy'', ''same-origin''),
                    (''Permissions-Policy'', ''camera=()'')]" "''github.com''"]
    by (auto simp add: serving_def)
  have f: "head_request
            (serving [(''Strict-Transport-Security'', ''max-age=63072000''),
                      (''Content-Security-Policy'', ''default-src https:''),
                      (''X-Frame-Options'', ''SAMEORIGIN''),
                      (''X-Content-Type-Options'', ''nosniff''),
                      (''Referrer-Policy'', ''same-origin''),
                      (''Permissions-Policy'', ''camera=()'')]) (url r)
          = Response (map_of [(''Strict-Transport-Security'', ''max-age=63072000''),
                              (''Content-Security-Policy'', ''default-src https:''),
                              (''X-Frame-Options'', ''SAMEORIGIN''),
                              (''X-Content-Type-Options'', ''nosniff''),
                              (''Referrer-Policy'', ''same-origin''),
                              (''Permissions-Policy'', ''camera=()'')])"
    by (simp add: serving_def)
  have h: "https r"
    using analyze_url_result(3) [OF r] by (simp add: eval_defs)
  have m: "list_all
            (\<lambda>k. value_or_missing
                   (map_of [(''Strict-Transport-Security'', ''max-age=63072000''),
                            (''Content-Security-Policy'', ''default-src https:''),
                            (''X-Frame-Options'', ''SAMEORIGIN''),
                            (''X-Content-Type-Options'', ''nosniff''),
                            (''Referrer-Policy'', ''same-origin''),
                            (''Permissions-Policy'', ''camera=()'')] k) \<noteq> ''Missing'')
            security_header_names"
    by (simp add: security_header_names_def value_or_missing_def)
  note c = https_all_headers_score_80 [OF r f h m]
  show ?thesis
    by (intro exI [of _ r] conjI r f h m conjunct1 [OF c] conjunct1 [OF conjunct2 [OF c]]
        conjunct2 [OF conjunct2 [OF c]])
qed

subsection \<open>C3: a failed fetch is recorded and the analysis goes on\<close>

text \<open>
  Claim C3. Whenever the HEAD request raises, \<open>analyze_url\<close> still returns a result, and
  the \<open>security_headers\<close> of that result is exactly the one-entry map
  \<open>{"error": "Could not fetch headers"}\<close>. The request is only sent once \<open>urlparse\<close> has
  accepted the URL, which is the first hypothesis. The other fields that do not depend on
  the scoring are given too.
\<close>

theorem fetch_failure_yields_error_map:
  assumes "\<not> urlsplit_rejects env (normalize_url input_url)"
    and "head_request env (normalize_url input_url) = FetchFailed"
  shows "\<exists>r. analyze_url env input_url = Inr r
           \<and> security_headers r = [(''error'', ''Could not fetch headers'')]
           \<and> url r = normalize_url input_url \<and> ssl_info r = None \<and> timestamp r = now env"
proof -
  from assms(1) obtain r where r: "analyze_url env input_url = Inr r"
    using analyze_url_returns by blast
  from analyze_url_result(2,4,5,6) [OF r] assms(2) show ?thesis
    using r by (simp add: fetch_failed_headers)
qed

theorem fetch_failure_yields_error_map_witness:
  "\<not> urlsplit_rejects offline (normalize_url ''github.com'')
   \<and> head_request offline (normalize_url ''github.com'') = FetchFailed
   \<and> (\<exists>r. analyze_url offline ''github.com'' = Inr r
           \<and> security_headers r = [(''error'', ''Could not fetch headers'')]
           \<and> url r = normalize_url ''github.com'' \<and> ssl_info r = None
           \<and> timestamp r = now offline)"
  using fetch_failure_yields_error_map [of offline "''github.com''"]
  by (simp add: offline_def)

subsection \<open>C4: both scores lie between 0 and 100\<close>

text \<open>
  Claim C4. For every input URL that \<open>urlparse\<close> accepts and every outcome of the HEAD
  request (a response with any headers, or a failure), a result is returned and its
  \<open>security_score\<close> and \<open>privacy_score\<close> are integers from 0 to 100.
\<close>

theorem scores_between_0_and_100:
  assumes "\<not> urlsplit_rejects env (normalize_url input_url)"
  shows "\<exists>r. analyze_url env input_url = Inr r
           \<and> 0 \<le> security_score r \<and> security_score r \<le> 100
           \<and> 0 \<le> privacy_score r \<and> privacy_score r \<le> 100"
proof -
  from assms obtain r where r: "analyze_url env input_url = Inr r"
    using analyze_url_returns by blast
  have "0 \<le> security_score r" "security_score r \<le> 100"
    unfolding analyze_url_result(7) [OF r]
    using calculate_scores_security_bounds [of "https r" "security_headers r"] by simp_all
  moreover have "0 \<le> privacy_score r" "privacy_score r \<le> 100"
    unfolding analyze_url_result(8) [OF r]
    using calculate_scores_privacy_bounds [of "https r" "security_headers r"] by simp_all
  ultimately show ?thesis using r by simp
qed

theorem scores_between_0_and_100_witness:
  "\<not> urlsplit_rejects (serving [(''X-Frame-Options'', ''DENY'')])
        (normalize_url ''http://httpbin.org'')
   \<and> (\<exists>r. analyze_url (serving [(''X-Frame-Options'', ''DENY'')]) ''http://httpbin.org'' = Inr r
           \<and> 0 \<le> security_score r \<and> security_score r \<le> 100
           \<and> 0 \<le> privacy_score r \<and> privacy_score r \<le> 100)"
  using scores_between_0_and_100 [of "serving [(''X-Frame-Options'', ''DENY'')]"
      "''http://httpbin.org''"]
  by (simp add: serving_def)

subsection \<open>C5: the scheme that is probed and reported\<close>

text \<open>
  Claim C5. An input that does not begin with \<open>http://\<close> or \<open>https://\<close> is probed as
  \<open>https://\<close> followed by the input: that is the \<open>url\<close> of the result, and \<open>https\<close> is
  true. An input that begins with one of the two prefixes is probed unchanged, and
  \<open>https\<close> is true exactly when the parsed scheme is \<open>https\<close>, that is, when the input
  begins with \<open>https://\<close>. In both cases the header map comes from the HEAD request to
  the \<open>url\<close> of the result.
\<close>

theorem scheme_prepended_and_reported:
  assumes "\<not> urlsplit_rejects env (normalize_url input_url)"
  shows "\<exists>r. analyze_url env input_url = Inr r
           \<and> (if startswith input_url [''http://'', ''https://'']
               then url r = input_url
                    \<and> https r = (url_scheme input_url = ''https'')
                    \<and> https r = startswith input_url [''https://'']
               else url r = ''https://'' @ input_url \<and> https r)
           \<and> security_headers r = fetch_security_headers (head_request env (url r))"
proof -
  from assms obtain r where r: "analyze_url env input_url = Inr r"
    using analyze_url_returns by blast
  note res = analyze_url_result(2,3,4) [OF r]
  have probe: "security_headers r = fetch_security_headers (head_request env (url r))"
    using res by simp
  show ?thesis
  proof (cases "startswith input_url [''http://'', ''https://'']")
    case True
    then have n: "normalize_url input_url = input_url"
      by (simp add: normalize_url_def)
    have "https r = startswith input_url [''https://'']"
      using res(2) is_https_iff [of input_url] n startswith_https_iff [of input_url] by simp
    with True r res n probe show ?thesis by simp
  next
    case False
    then have n: "normalize_url input_url = ''https://'' @ input_url"
      by (simp add: normalize_url_def)
    then have "url_scheme (normalize_url input_url) = ''https''"
      by (simp only: url_scheme_https)
    with False r res n probe show ?thesis by simp
  qed
qed

theorem scheme_prepended_and_reported_witness:
  "\<not> urlsplit_rejects offline (normalize_url ''example.org/path'')
   \<and> \<not> startswith ''example.org/path'' [''http://'', ''https://'']
   \<and> (\<exists>r. analyze_url offline ''example.org/path'' = Inr r
           \<and> url r = ''https://example.org/path'' \<and> https r
           \<and> security_headers r = fetch_security_headers (head_request offline (url r)))
   \<and> \<not> urlsplit_rejects offline (normalize_url ''http://example.org'')
   \<and> startswith ''http://example.org'' [''http://'', ''https://'']
   \<and> (\<exists>r. analyze_url offline ''http://example.org'' = Inr r
           \<and> url r = ''http://example.org'' \<and> \<not> https r
           \<and> url_scheme ''http://example.org'' = ''http'')"
proof -
  have a: "\<not> urlsplit_rejects offline u" for u
    by (simp add: offline_def)
  have b: "\<not> startswith ''example.org/path'' [''http://'', ''https://'']"
    "startswith ''http://example.org'' [''http://'', ''https://'']"
    "\<not> startswith ''http://example.org'' [''https://'']"
    "url_scheme ''http://example.org'' = ''http''"
    by (simp_all add: eval_defs)
  from scheme_prepended_and_reported [OF a, of "''example.org/path''"]
    scheme_prepended_and_reported [OF a, of "''http://example.org''"]
  show ?thesis
    using a b by auto
qed

subsection \<open>C6: no HTTPS and no header\<close>

text \<open>
  Claim C6. When \<open>https\<close> is false and each of the six headers is mapped to
  \<open>'Missing'\<close>, both scores are 0 and the recommendations are exactly the seven failure
  messages in the order of the checks (HTTPS, HSTS, CSP, X-Frame-Options,
  X-Content-Type-Options, Referrer-Policy, Permissions-Policy), with no message put in
  front of them.
\<close>

theorem no_https_no_headers:
  assumes "analyze_url env input_url = Inr r"
    and "\<not> https r"
    and "list_all (\<lambda>k. dict_get (security_headers r) k = Some ''Missing'') security_header_names"
  shows "security_score r = 0 \<and> privacy_score r = 0
         \<and> recommendations r =
             [''Site does not use HTTPS - traffic is not encrypted'',
              ''Missing HSTS header - vulnerable to protocol downgrade attacks'',
              ''Missing CSP header - vulnerable to XSS attacks'',
              ''Missing X-Frame-Options - vulnerable to clickjacking'',
              ''Missing X-Content-Type-Options header'',
              ''Missing Referrer-Policy - may leak information'',
              ''Missing Permissions-Policy header'']"
proof -
  have c: "calculate_scores (https r) (security_headers r) =
    (0, 0, [''Site does not use HTTPS - traffic is not encrypted'',
            ''Missing HSTS header - vulnerable to protocol downgrade attacks'',
            ''Missing CSP header - vulnerable to XSS attacks'',
            ''Missing X-Frame-Options - vulnerable to clickjacking'',
            ''Missing X-Content-Type-Options header'',
            ''Missing Referrer-Policy - may leak information'',
            ''Missing Permissions-Policy header''])"
    using assms(2,3) by (simp add: calculate_scores_closed security_header_names_def)
  show ?thesis
    using analyze_url_result(7,8,9) [OF assms(1)] unfolding c
    by (simp add: add_positive_feedback_def)
qed

theorem no_https_no_headers_witness:
  "\<exists>r. analyze_url (serving []) ''http://example.com'' = Inr r
       \<and> \<not> https r
       \<and> list_all (\<lambda>k. dict_get (security_headers r) k = Some ''Missing'') security_header_names
       \<and> security_score r = 0 \<and> privacy_score r = 0
       \<and> recommendations r =
             [''Site does not use HTTPS - traffic is not encrypted'',
              ''Missing HSTS header - vulnerable to protocol downgrade attacks'',
              ''Missing CSP header - vulnerable to XSS attacks'',
              ''Missing X-Frame-Options - vulnerable to clickjacking'',
              ''Missing X-Content-Type-Options header'',
              ''Missing Referrer-Policy - may leak information'',
              ''Missing Permissions-Policy header'']"
proof -
  obtain r where r: "analyze_url (serving []) ''http://example.com'' = Inr r"
    using analyze_url_returns [of "serving []" "''http://example.com''"]
    by (auto simp add: serving_def)
  have h: "\<not> https r"
    using analyze_url_result(3) [OF r] by (simp add: eval_defs)
  have m: "list_all (\<lambda>k. dict_get (security_headers r) k = Some ''Missing'')
             security_header_names"
    using analyze_url_result(4) [OF r] by (simp add: eval_defs)
  note c = no_https_no_headers [OF r h m]
  show ?thesis
    by (intro exI [of _ r] conjI r h m conjunct1 [OF c] conjunct1 [OF conjunct2 [OF c]]
        conjunct2 [OF conjunct2 [OF c]])
qed

subsection \<open>C7: the bands of the positive feedback\<close>

text \<open>
  Claim C7. In every result, a \<open>security_score\<close> of 80 or more puts
  "Excellent security configuration!" first in the recommendations; otherwise a score of
  60 or more puts "Good security, but room for improvement" first; and below 60 neither
  message occurs in the list. At the boundaries the step of lines 266-270 adds the
  first message for 80, the second for 79 and 60, and nothing for 59.
\<close>

theorem positive_feedback_bands:
  assumes "analyze_url env input_url = Inr r"
  shows "(if security_score r \<ge> 80
          then take 1 (recommendations r) = [''Excellent security configuration!'']
          else if security_score r \<ge> 60
          then take 1 (recommendations r) = [''Good security, but room for improvement'']
          else ''Excellent security configuration!'' \<notin> set (recommendations r)
               \<and> ''Good security, but room for improvement'' \<notin> set (recommendations r))
         \<and> add_positive_feedback 80 recs = ''Excellent security configuration!'' # recs
         \<and> add_positive_feedback 79 recs = ''Good security, but room for improvement'' # recs
         \<and> add_positive_feedback 60 recs = ''Good security, but room for improvement'' # recs
         \<and> add_positive_feedback 59 recs = recs"
proof -
  note nf = calculate_scores_no_feedback [of "https r" "security_headers r"]
  have steps:
    "add_positive_feedback 80 recs = ''Excellent security configuration!'' # recs"
    "add_positive_feedback 79 recs = ''Good security, but room for improvement'' # recs"
    "add_positive_feedback 60 recs = ''Good security, but room for improvement'' # recs"
    "add_positive_feedback 59 recs = recs"
    by (simp_all add: add_positive_feedback_def)
  have "if security_score r \<ge> 80
          then take 1 (recommendations r) = [''Excellent security configuration!'']
          else if security_score r \<ge> 60
          then take 1 (recommendations r) = [''Good security, but room for improvement'']
          else ''Excellent security configuration!'' \<notin> set (recommendations r)
               \<and> ''Good security, but room for improvement'' \<notin> set (recommendations r)"
    using nf unfolding analyze_url_result(9) [OF assms]
    by (simp add: add_positive_feedback_def Let_def)
  with steps show ?thesis by blast
qed

text \<open>
  Four runs over HTTPS: with the four security headers the score is 80, without
  X-Content-Type-Options it is 70, with HSTS and CSP only it is 60, with HSTS and
  X-Frame-Options only it is 55.
\<close>

theorem positive_feedback_bands_witness:
  "(\<exists>r. analyze_url
          (serving [(''Strict-Transport-Security'', ''max-age=31536000''),
                    (''Content-Security-Policy'', ''default-src https:''),
                    (''X-Frame-Options'', ''DENY''),
                    (''X-Content-Type-Options'', ''nosniff'')]) ''example.com'' = Inr r
        \<and> security_score r = 80
        \<and> take 1 (recommendations r) = [''Excellent security configuration!''])
   \<and> (\<exists>r. analyze_url
          (serving [(''Strict-Transport-Security'', ''max-age=31536000''),
                    (''Content-Security-Policy'', ''default-src https:''),
                    (''X-Frame-Options'', ''DENY'')]) ''example.com'' = Inr r
        \<and> security_score r = 70
        \<and> take 1 (recommendations r) = [''Good security, but room for improvement''])
   \<and> (\<exists>r. analyze_url
          (serving [(''Strict-Transport-Security'', ''max-age=31536000''),
                    (''Content-Security-Policy'', ''default-src https:'')]) ''example.com''
          = Inr r
        \<and> security_score r = 60
        \<and> take 1 (recommendations r) = [''Good security, but room for improvement''])
   \<and> (\<exists>r. analyze_url
          (serving [(''Strict-Transport-Security'', ''max-age=31536000''),
                    (''X-Frame-Options'', ''DENY'')]) ''example.com'' = Inr r
        \<and> security_score r = 55
        \<and> ''Excellent security configuration!'' \<notin> set (recommendations r)
        \<and> ''Good security, but room for improvement'' \<notin> set (recommendations r))"
proof -
  obtain r1 where r1:
    "analyze_url
       (serving [(''Strict-Transport-Security'', ''max-age=31536000''),
                    (''Content-Security-Policy'', ''default-src https:''),
                    (''X-Frame-Options'', ''DENY''),
                    (''X-Content-Type-Options'', ''nosniff'')]) ''example.com'' = Inr r1"
    using analyze_url_returns
      [of "serving [(''Strict-Transport-Security'', ''max-age=31536000''),
                    (''Content-Security-Policy'', ''default-src https:''),
                    (''X-Frame-Options'', ''DENY''),
                    (''X-Content-Type-Options'', ''nosniff'')]" "''example.com''"]
    by (auto simp add: serving_def)
  have s1: "security_score r1 = 80"
    using analyze_url_result(3,4,7) [OF r1] by (simp add: eval_defs)
  obtain r2 where r2:
    "analyze_url
       (serving [(''Strict-Transport-Security'', ''max-age=31536000''),
                    (''Content-Security-Policy'', ''default-src https:''),
                    (''X-Frame-Options'', ''DENY'')]) ''example.com'' = Inr r2"
    using analyze_url_returns
      [of "serving [(''Strict-Transport-Security'', ''max-age=31536000''),
                    (''Content-Security-Policy'', ''default-src https:''),
                    (''X-Frame-Options'', ''DENY'')]" "''example.com''"]
    by (auto simp add: serving_def)
  have s2: "security_score r2 = 70"
    using analyze_url_result(3,4,7) [OF r2] by (simp add: eval_defs)
  obtain r3 where r3:
    "analyze_url
       (serving [(''Strict-Transport-Security'', ''max-age=31536000''),
                    (''Content-Security-Policy'', ''default-src https:'')]) ''example.com'' = Inr r3"
    using analyze_url_returns
      [of "serving [(''Strict-Transport-Security'', ''max-age=31536000''),
                    (''Content-Security-Policy'', ''default-src https:'')]" "''example.com''"]
    by (auto simp add: serving_def)
  have s3: "security_score r3 = 60"
    using analyze_url_result(3,4,7) [OF r3] by (simp add: eval_defs)
  obtain r4 where r4:
    "analyze_url
       (serving [(''Strict-Transport-Security'', ''max-age=31536000''),
                    (''X-Frame-Options'', ''DENY'')]) ''example.com'' = Inr r4"
    using analyze_url_returns
      [of "serving [(''Strict-Transport-Security'', ''max-age=31536000''),
                    (''X-Frame-Options'', ''DENY'')]" "''example.com''"]
    by (auto simp add: serving_def)
  have s4: "security_score r4 = 55"
    using analyze_url_result(3,4,7) [OF r4] by (simp add: eval_defs)
  from positive_feedback_bands [OF r1] s1
  have c1: "take 1 (recommendations r1) = [''Excellent security configuration!'']"
    by simp
  from positive_feedback_bands [OF r2] s2
  have c2: "take 1 (recommendations r2) = [''Good security, but room for improvement'']"
    by simp
  from positive_feedback_bands [OF r3] s3
  have c3: "take 1 (recommendations r3) = [''Good security, but room for improvement'']"
    by simp
  from positive_feedback_bands [OF r4] s4
  have c4: "''Excellent security configuration!'' \<notin> set (recommendations r4)"
    "''Good security, but room for improvement'' \<notin> set (recommendations r4)"
    by simp_all
  have w1: "\<exists>r. analyze_url
          (serving [(''Strict-Transport-Security'', ''max-age=31536000''),
                    (''Content-Security-Policy'', ''default-src https:''),
                    (''X-Frame-Options'', ''DENY''),
                    (''X-Content-Type-Options'', ''nosniff'')]) ''example.com'' = Inr r
        \<and> security_score r = 80
        \<and> take 1 (recommendations r) = [''Excellent security configuration!'']"
    by (intro exI [of _ r1] conjI r1 s1 c1)
  have w2: "\<exists>r. analyze_url
          (serving [(''Strict-Transport-Security'', ''max-age=31536000''),
                    (''Content-Security-Policy'', ''default-src https:''),
                    (''X-Frame-Options'', ''DENY'')]) ''example.com'' = Inr r
        \<and> security_score r = 70
        \<and> take 1 (recommendations r) = [''Good security, but room for improvement'']"
    by (intro exI [of _ r2] conjI r2 s2 c2)
  have w3: "\<exists>r. analyze_url
          (serving [(''Strict-Transport-Security'', ''max-age=31536000''),
                    (''Content-Security-Policy'', ''default-src https:'')]) ''example.com'' = Inr r
        \<and> security_score r = 60
        \<and> take 1 (recommendations r) = [''Good security, but room for improvement'']"
    by (intro exI [of _ r3] conjI r3 s3 c3)
  have w4: "\<exists>r. analyze_url
          (serving [(''Strict-Transport-Security'', ''max-age=31536000''),
                    (''X-Frame-Options'', ''DENY'')]) ''example.com'' = Inr r
        \<and> security_score r = 55
        \<and> ''Excellent security configuration!'' \<notin> set (recommendations r)
        \<and> ''Good security, but room for improvement'' \<notin> set (recommendations r)"
    by (intro exI [of _ r4] conjI r4 s4 c4)
  from w1 w2 w3 w4 show ?thesis
    by (intro conjI)
qed

subsection \<open>C8: there is always a recommendation\<close>

text \<open>
  Claim C8. For every accepted input and every outcome of the HEAD request, the
  \<open>recommendations\<close> list of the returned result is not empty.
\<close>

theorem recommendations_never_empty:
  assumes "\<not> urlsplit_rejects env (normalize_url input_url)"
  shows "\<exists>r. analyze_url env input_url = Inr r \<and> recommendations r \<noteq> []"
proof -
  from assms obtain r where r: "analyze_url env input_url = Inr r"
    using analyze_url_returns by blast
  have "recommendations r \<noteq> []"
    unfolding analyze_url_result(9) [OF r] by (simp add: Let_def)
  with r show ?thesis by blast
qed

theorem recommendations_never_empty_witness:
  "\<not> urlsplit_rejects offline (normalize_url ''http://httpbin.org'')
   \<and> (\<exists>r. analyze_url offline ''http://httpbin.org'' = Inr r \<and> recommendations r \<noteq> [])"
  using recommendations_never_empty [of offline "''http://httpbin.org''"]
  by (simp add: offline_def)

subsection \<open>C9: an empty header value counts as a missing header\<close>

text \<open>
  Claim C9. After a successful fetch, each of the six headers is mapped to its value when
  the response has the header with a non-empty value, and to \<open>'Missing'\<close> otherwise. In
  particular a header that is present with the empty string as value is mapped to
  \<open>'Missing'\<close>, and the whole result is the one obtained when the response does not have
  that header at all.
\<close>

theorem empty_header_value_is_missing:
  assumes "analyze_url env input_url = Inr r"
    and "head_request env (url r) = Response headers"
    and "k \<in> set security_header_names"
  shows "dict_get (security_headers r) k =
           Some (case headers k of None \<Rightarrow> ''Missing''
                 | Some v \<Rightarrow> if v = [] then ''Missing'' else v)
         \<and> (headers k = Some [] \<longrightarrow>
              dict_get (security_headers r) k = Some ''Missing''
              \<and> analyze_url
                  (env\<lparr>head_request := (head_request env)(url r := Response (headers(k := None)))\<rparr>)
                  input_url = Inr r)"
proof -
  note res = analyze_url_result [OF assms(1)]
  have sh: "security_headers r = fetch_security_headers (Response headers)"
    using res(2,4) assms(2) by simp
  have a: "dict_get (security_headers r) k = Some (value_or_missing (headers k))"
    unfolding sh using assms(3) by (rule dict_get_response)
  have b: "analyze_url
             (env\<lparr>head_request := (head_request env)(url r := Response (headers(k := None)))\<rparr>)
             input_url = Inr r" if e: "headers k = Some []"
  proof -
    have "\<And>k'. value_or_missing ((headers(k := None)) k') = value_or_missing (headers k')"
      using e by (simp add: value_or_missing_empty)
    then have "fetch_security_headers (Response (headers(k := None)))
               = fetch_security_headers (Response headers)"
      unfolding fetch_response_headers by simp
    then have "analyze_url
             (env\<lparr>head_request := (head_request env)(url r := Response (headers(k := None)))\<rparr>)
             input_url = analyze_url env input_url"
      using res(1,2) assms(2) by (simp add: analyze_url_unfold)
    with assms(1) show ?thesis by simp
  qed
  from a b show ?thesis
    by (auto simp add: value_or_missing_def split: option.splits)
qed

theorem empty_header_value_is_missing_witness:
  "\<exists>r. analyze_url (serving [(''Content-Security-Policy'', '''')]) ''example.com'' = Inr r
       \<and> head_request (serving [(''Content-Security-Policy'', '''')]) (url r)
           = Response (map_of [(''Content-Security-Policy'', '''')])
       \<and> ''Content-Security-Policy'' \<in> set security_header_names
       \<and> map_of [(''Content-Security-Policy'', '''')] ''Content-Security-Policy'' = Some []
       \<and> dict_get (security_headers r) ''Content-Security-Policy'' = Some ''Missing''
       \<and> analyze_url
           ((serving [(''Content-Security-Policy'', '''')])
              \<lparr>head_request :=
                 (head_request (serving [(''Content-Security-Policy'', '''')]))
                   (url r := Response ((map_of [(''Content-Security-Policy'', '''')])
                                         (''Content-Security-Policy'' := None)))\<rparr>)
           ''example.com'' = Inr r"
proof -
  obtain r where r: "analyze_url (serving [(''Content-Security-Policy'', '''')]) ''example.com''
      = Inr r"
    using analyze_url_returns [of "serving [(''Content-Security-Policy'', '''')]" "''example.com''"]
    by (auto simp add: serving_def)
  have f: "head_request (serving [(''Content-Security-Policy'', '''')]) (url r)
           = Response (map_of [(''Content-Security-Policy'', '''')])"
    by (simp add: serving_def)
  have k: "''Content-Security-Policy'' \<in> set security_header_names"
    by (simp add: security_header_names_def)
  have e: "map_of [(''Content-Security-Policy'', '''')] ''Content-Security-Policy'' = Some []"
    by simp
  note bc = mp [OF conjunct2 [OF empty_header_value_is_missing [OF r f k]] e]
  show ?thesis
    by (rule exI [of _ r]) (intro conjI r f k e conjunct1 [OF bc] conjunct2 [OF bc])
qed

subsection \<open>C10: the clamp never changes a score\<close>

text \<open>
  Claim C10. For every accepted input and every outcome of the HEAD request, the sums that
  \<open>calculate_scores\<close> returns, before \<open>min(..., 100)\<close> is applied, are at most 80
  (security) and at most 70 (privacy); so \<open>min\<close> leaves both unchanged and the returned
  scores are these sums.
\<close>

theorem clamp_leaves_scores_unchanged:
  assumes "\<not> urlsplit_rejects env (normalize_url input_url)"
  shows "\<exists>r. analyze_url env input_url = Inr r
           \<and> (case calculate_scores (https r) (security_headers r) of
                (sec, priv, recs) \<Rightarrow>
                  sec \<le> 80 \<and> priv \<le> 70 \<and> min sec 100 = sec \<and> min priv 100 = priv
                  \<and> security_score r = sec \<and> privacy_score r = priv)"
proof -
  from assms obtain r where r: "analyze_url env input_url = Inr r"
    using analyze_url_returns by blast
  obtain sec priv recs
    where c: "calculate_scores (https r) (security_headers r) = (sec, priv, recs)"
    by (cases "calculate_scores (https r) (security_headers r)") auto
  have "sec \<le> 80" "priv \<le> 70"
    using calculate_scores_security_bounds(2) [of "https r" "security_headers r"]
      calculate_scores_privacy_bounds(2) [of "https r" "security_headers r"] c by simp_all
  moreover have "security_score r = min sec 100" "privacy_score r = min priv 100"
    using analyze_url_result(7,8) [OF r] c by simp_all
  ultimately show ?thesis using r c by simp
qed

theorem clamp_leaves_scores_unchanged_witness:
  "\<not> urlsplit_rejects (serving [(''Referrer-Policy'', ''no-referrer'')])
        (normalize_url ''https://github.com'')
   \<and> (\<exists>r. analyze_url (serving [(''Referrer-Policy'', ''no-referrer'')]) ''https://github.com''
             = Inr r
           \<and> (case calculate_scores (https r) (security_headers r) of
                (sec, priv, recs) \<Rightarrow>
                  sec \<le> 80 \<and> priv \<le> 70 \<and> min sec 100 = sec \<and> min priv 100 = priv
                  \<and> security_score r = sec \<and> privacy_score r = priv))"
  using clamp_leaves_scores_unchanged [of "serving [(''Referrer-Policy'', ''no-referrer'')]"
      "''https://github.com''"]
  by (simp add: serving_def)

end
